theory Spec2Isabelle
  imports Main "HOL-Library.Word"
begin

unbundle bit_operations_syntax

section \<open>BMP280 compensation (adafruit\_io\_bmp280.c)\<close>

text \<open>
  The C types: \<open>int32_t\<close> and \<open>uint32_t\<close> are both \<open>32 word\<close> (the same bits; the
  signedness is in the operation applied), \<open>int16_t\<close> and \<open>uint16_t\<close> are \<open>16 word\<close>.
  \<open>(int32_t) x\<close> of an \<open>int16_t\<close> is the sign extension \<open>scast\<close>, of a \<open>uint16_t\<close>
  the zero extension \<open>ucast\<close>. \<open>>>\<close> on an \<open>int32_t\<close> is the arithmetic shift
  \<open>signed_drop_bit\<close> (as the compiler for the target does it), on a \<open>uint32_t\<close> the logical
  shift \<open>drop_bit\<close>; \<open><<\<close> is \<open>push_bit\<close>. \<open>+\<close>, \<open>-\<close> and \<open>*\<close> wrap around modulo
  \<open>2 ^ 32\<close>.
\<close>

type_synonym int32_t = "32 word"
type_synonym uint32_t = "32 word"
type_synonym int16_t = "16 word"
type_synonym uint16_t = "16 word"

record bmp280_calib_param =
  dig_t1 :: uint16_t
  dig_t2 :: int16_t
  dig_t3 :: int16_t
  dig_p1 :: uint16_t
  dig_p2 :: int16_t
  dig_p3 :: int16_t
  dig_p4 :: int16_t
  dig_p5 :: int16_t
  dig_p6 :: int16_t
  dig_p7 :: int16_t
  dig_p8 :: int16_t
  dig_p9 :: int16_t

text \<open>\<open>bmp280_convert\<close>: the fine-temperature intermediate \<open>t_fine\<close>.\<close>

definition bmp280_convert :: "int32_t \<Rightarrow> bmp280_calib_param \<Rightarrow> int32_t" where
  "bmp280_convert temp params =
    (let var1 = signed_drop_bit 11
                  ((signed_drop_bit 3 temp - push_bit 1 (ucast (dig_t1 params)))
                    * scast (dig_t2 params));
         var2 = signed_drop_bit 14
                  (signed_drop_bit 12
                     ((signed_drop_bit 4 temp - ucast (dig_t1 params))
                       * (signed_drop_bit 4 temp - ucast (dig_t1 params)))
                    * scast (dig_t3 params))
     in var1 + var2)"

definition bmp280_convert_temp :: "int32_t \<Rightarrow> bmp280_calib_param \<Rightarrow> int32_t" where
  "bmp280_convert_temp temp params =
    (let t_fine = bmp280_convert temp params
     in signed_drop_bit 8 (t_fine * 5 + 128))"

text \<open>
  An unsigned 32-bit division. The C division traps (is undefined) on a zero divisor,
  so the model returns \<open>None\<close> there.
\<close>

definition udiv32 :: "uint32_t \<Rightarrow> uint32_t \<Rightarrow> uint32_t option" where
  "udiv32 a b = (if b = 0 then None else Some (a div b))"

text \<open>
  The three intermediates of \<open>bmp280_convert_pressure\<close> before its zero test:
  \<open>pressure_var1_init\<close> is \<open>var1\<close> as line 138 assigns it, \<open>pressure_var2\<close> is
  \<open>var2\<close> after lines 139 to 141, \<open>pressure_var1\<close> is \<open>var1\<close> after lines 142 and 143,
  the value tested against zero and used as the divisor.
\<close>

definition pressure_var1_init :: "int32_t \<Rightarrow> bmp280_calib_param \<Rightarrow> int32_t" where
  "pressure_var1_init temp params =
    (let t_fine = bmp280_convert temp params
     in signed_drop_bit 1 t_fine - 64000)"

definition pressure_var2 :: "int32_t \<Rightarrow> bmp280_calib_param \<Rightarrow> int32_t" where
  "pressure_var2 temp params =
    (let var1 = pressure_var1_init temp params;
         var2 = signed_drop_bit 11 (signed_drop_bit 2 var1 * signed_drop_bit 2 var1)
                  * scast (dig_p6 params);
         var2 = var2 + push_bit 1 (var1 * scast (dig_p5 params));
         var2 = signed_drop_bit 2 var2 + push_bit 16 (scast (dig_p4 params))
     in var2)"

definition pressure_var1 :: "int32_t \<Rightarrow> bmp280_calib_param \<Rightarrow> int32_t" where
  "pressure_var1 temp params =
    (let var1 = pressure_var1_init temp params;
         var1 = signed_drop_bit 18
                  (signed_drop_bit 3
                     (scast (dig_p3 params)
                       * signed_drop_bit 13 (signed_drop_bit 2 var1 * signed_drop_bit 2 var1))
                   + signed_drop_bit 1 (scast (dig_p2 params) * var1));
         var1 = signed_drop_bit 15 ((32768 + var1) * ucast (dig_p1 params))
     in var1)"

definition bmp280_convert_pressure ::
  "int32_t \<Rightarrow> int32_t \<Rightarrow> bmp280_calib_param \<Rightarrow> int32_t option" where
  "bmp280_convert_pressure pressure temp params =
    (let var2 = pressure_var2 temp params;
         var1 = pressure_var1 temp params
     in if var1 = 0 then Some 0
        else
          let converted = ((1048576 - pressure) - signed_drop_bit 12 var2) * 3125;
              quotient = (if converted < 0x80000000
                          then udiv32 (push_bit 1 converted) var1
                          else map_option (\<lambda>q. q * 2) (udiv32 converted var1))
          in case quotient of
               None \<Rightarrow> None
             | Some converted \<Rightarrow>
                 let var1 = signed_drop_bit 12
                              (scast (dig_p9 params)
                                * drop_bit 13 (drop_bit 3 converted * drop_bit 3 converted));
                     var2 = signed_drop_bit 13 (drop_bit 2 converted * scast (dig_p8 params));
                     converted = converted
                                  + signed_drop_bit 4 (var1 + var2 + scast (dig_p7 params))
                 in Some converted)"


section \<open>The HTTP POST state machine (adafruit\_io\_bmp280.c)\<close>

text \<open>
  lwIP and the SDK are outside the program. Their error codes are integers; only
  the ones the program names in a decision are defined here, with the values of the
  headers \<open>lwip/err.h\<close> and \<open>pico/error.h\<close> (the proofs use only that they differ from
  each other and from 0). A transport handle
  (\<open>struct altcp_pcb *\<close>), a TLS configuration (\<open>struct altcp_tls_config *\<close>) and an
  address are natural numbers; a nullable pointer is an \<open>option\<close>.
\<close>

type_synonym err_t = int

definition ERR_OK :: err_t where "ERR_OK = 0"
definition ERR_INPROGRESS :: err_t where "ERR_INPROGRESS = - 5"
definition ERR_VAL :: err_t where "ERR_VAL = - 6"
definition ERR_ABRT :: err_t where "ERR_ABRT = - 13"

definition PICO_ERROR_GENERIC :: int where "PICO_ERROR_GENERIC = - 1"
definition PICO_ERROR_TIMEOUT :: int where "PICO_ERROR_TIMEOUT = - 2"

record HTTP_POST_STATE_T =
  pcb :: "nat option"
  complete :: bool
  error :: int
  http_request :: string
  timeout :: int

text \<open>
  Every call the program makes into lwIP is appended to \<open>calls\<close>, in order. The flag
  of \<open>Altcp_arg\<close>, \<open>Altcp_poll\<close>, \<open>Altcp_recv\<close> and \<open>Altcp_err\<close> says whether the
  argument or callback passed is non-null. \<open>tls_config\<close> is the global of that name;
  \<open>tls_allocated\<close> holds the configurations created and not freed.
\<close>

datatype lwip_call =
    Altcp_tls_new "nat option"
  | Altcp_arg nat bool
  | Altcp_poll nat bool int
  | Altcp_recv nat bool
  | Altcp_err nat bool
  | Ssl_set_hostname nat string
  | Dns_gethostbyname string
  | Altcp_connect nat nat nat
  | Altcp_write nat string
  | Altcp_recved nat nat
  | Altcp_close nat
  | Altcp_abort nat

record world =
  tls_config :: "nat option"
  tls_allocated :: "nat set"
  calls :: "lwip_call list"

text \<open>What the external functions return during one uplink.\<close>

record env =
  create_config_result :: "nat option"
  calloc_result :: bool
  tls_new_result :: "nat option"
  dns_result :: err_t
  server_ip :: nat
  connect_result :: err_t
  write_result :: err_t
  close_result :: err_t

definition call :: "lwip_call \<Rightarrow> world \<Rightarrow> world" where
  "call c w = w\<lparr>calls := calls w @ [c]\<rparr>"

text \<open>\<open>altcp_connect\<close> and \<open>altcp_write\<close> of lwIP answer \<open>ERR_VAL\<close> to a null handle.\<close>

definition altcp_connect :: "env \<Rightarrow> nat option \<Rightarrow> nat \<Rightarrow> nat \<Rightarrow> world \<Rightarrow> err_t \<times> world" where
  "altcp_connect env p ipaddr port w =
    (case p of
       None \<Rightarrow> (ERR_VAL, w)
     | Some h \<Rightarrow> (connect_result env, call (Altcp_connect h ipaddr port) w))"

definition altcp_write :: "env \<Rightarrow> nat option \<Rightarrow> string \<Rightarrow> world \<Rightarrow> err_t \<times> world" where
  "altcp_write env p dat w =
    (case p of
       None \<Rightarrow> (ERR_VAL, w)
     | Some h \<Rightarrow> (write_result env, call (Altcp_write h dat) w))"

definition http_post_close ::
  "env \<Rightarrow> HTTP_POST_STATE_T \<Rightarrow> world \<Rightarrow> err_t \<times> HTTP_POST_STATE_T \<times> world" where
  "http_post_close env state w =
    (let state = state\<lparr>complete := True\<rparr>
     in case pcb state of
          None \<Rightarrow> (ERR_OK, state, w)
        | Some h \<Rightarrow>
            let w = call (Altcp_arg h False) w;
                w = call (Altcp_poll h False 0) w;
                w = call (Altcp_recv h False) w;
                w = call (Altcp_err h False) w;
                w = call (Altcp_close h) w
            in if close_result env \<noteq> ERR_OK
               then (ERR_ABRT, state\<lparr>pcb := None\<rparr>, call (Altcp_abort h) w)
               else (close_result env, state\<lparr>pcb := None\<rparr>, w))"

definition http_post_connected ::
  "env \<Rightarrow> err_t \<Rightarrow> HTTP_POST_STATE_T \<Rightarrow> world \<Rightarrow> err_t \<times> HTTP_POST_STATE_T \<times> world" where
  "http_post_connected env err state w =
    (if err \<noteq> ERR_OK then http_post_close env state w
     else case altcp_write env (pcb state) (http_request state) w of
            (err, w) \<Rightarrow>
              if err \<noteq> ERR_OK then http_post_close env state w
              else (ERR_OK, state, w))"

definition http_post_poll ::
  "env \<Rightarrow> HTTP_POST_STATE_T \<Rightarrow> world \<Rightarrow> err_t \<times> HTTP_POST_STATE_T \<times> world" where
  "http_post_poll env state w =
    http_post_close env (state\<lparr>error := PICO_ERROR_TIMEOUT\<rparr>) w"

definition http_post_err ::
  "env \<Rightarrow> err_t \<Rightarrow> HTTP_POST_STATE_T \<Rightarrow> world \<Rightarrow> HTTP_POST_STATE_T \<times> world" where
  "http_post_err env err state w =
    (case http_post_close env state w of
       (_, state, w) \<Rightarrow> (state\<lparr>error := PICO_ERROR_GENERIC\<rparr>, w))"


subsection \<open>The receive callback\<close>

text \<open>
  C strings are character lists; a read at or past the end of the list reads the
  terminating NUL. \<open>strncmp\<close> compares at most \<open>n\<close> characters, stops after a NUL, and
  returns the difference of the first two characters that differ.
\<close>

definition NUL :: char where "NUL = CHR 0x00"

definition char_at_head :: "string \<Rightarrow> char" where
  "char_at_head s = (case s of [] \<Rightarrow> NUL | c # _ \<Rightarrow> c)"

fun strncmp :: "string \<Rightarrow> string \<Rightarrow> nat \<Rightarrow> int" where
  "strncmp s1 s2 0 = 0"
| "strncmp s1 s2 (Suc n) =
    (let c1 = char_at_head s1; c2 = char_at_head s2
     in if c1 \<noteq> c2 then int (of_char c1) - int (of_char c2)
        else if c1 = NUL then 0
        else strncmp (tl s1) (tl s2) n)"

text \<open>
  The local \<open>buf\<close> of \<open>http_post_recv\<close>: the first \<open>len\<close> bytes of the delivery, where
  \<open>len\<close> is \<open>tot_len\<close> capped at \<open>sizeof(buf) - 1 = 511\<close>, then a NUL.
\<close>

definition response_buf :: "string \<Rightarrow> string" where
  "response_buf payload =
    (let len = (if length payload < 512 - 1 then length payload else 512 - 1)
     in take len payload @ [NUL])"

text \<open>
  The four branches of the status check, named after what each prints: \<open>Success\<close>
  (\<open>Success! Status: 200/201\<close>), \<open>AuthFailure\<close> (\<open>Error: Authentication failed (401)\<close>),
  \<open>NotFound\<close> (\<open>Error: Feed not found (404)\<close>) and \<open>UnexpectedStatus\<close>
  (\<open>Warning: Unexpected status code\<close>).
\<close>

datatype status_class = Success | AuthFailure | NotFound | UnexpectedStatus

definition classify_status :: "string \<Rightarrow> status_class" where
  "classify_status buf =
    (if strncmp buf ''HTTP/1.1 200'' 12 = 0 \<or> strncmp buf ''HTTP/1.1 201'' 12 = 0 then Success
     else if strncmp buf ''HTTP/1.1 401'' 12 = 0 then AuthFailure
     else if strncmp buf ''HTTP/1.1 404'' 12 = 0 then NotFound
     else UnexpectedStatus)"

text \<open>What each branch assigns to \<open>state->error\<close>.\<close>

fun record_status :: "status_class \<Rightarrow> HTTP_POST_STATE_T \<Rightarrow> HTTP_POST_STATE_T" where
  "record_status Success state = state\<lparr>error := 0\<rparr>"
| "record_status AuthFailure state = state\<lparr>error := PICO_ERROR_GENERIC\<rparr>"
| "record_status NotFound state = state\<lparr>error := PICO_ERROR_GENERIC\<rparr>"
| "record_status UnexpectedStatus state = state"

text \<open>
  A delivery \<open>p\<close> is \<open>None\<close> for the null \<open>pbuf\<close> (the peer closed the stream) and
  \<open>Some payload\<close> otherwise, with \<open>tot_len = length payload\<close>. The second argument is the
  handle lwIP passes to the callback.
\<close>

definition http_post_recv ::
  "env \<Rightarrow> nat \<Rightarrow> string option \<Rightarrow> err_t \<Rightarrow> HTTP_POST_STATE_T \<Rightarrow> world
    \<Rightarrow> err_t \<times> HTTP_POST_STATE_T \<times> world" where
  "http_post_recv env h p err state w =
    (case p of
       None \<Rightarrow> http_post_close env (state\<lparr>error := 0\<rparr>) w
     | Some payload \<Rightarrow>
         if length payload > 0
         then (ERR_OK,
               record_status (classify_status (response_buf payload)) state,
               call (Altcp_recved h (length payload)) w)
         else (ERR_OK, state, w))"

subsection \<open>Opening the connection\<close>

definition http_post_connect_to_server_ip ::
  "env \<Rightarrow> nat \<Rightarrow> HTTP_POST_STATE_T \<Rightarrow> world \<Rightarrow> HTTP_POST_STATE_T \<times> world" where
  "http_post_connect_to_server_ip env ipaddr state w =
    (case altcp_connect env (pcb state) ipaddr 443 w of
       (err, w) \<Rightarrow>
         if err \<noteq> ERR_OK
         then (if err = ERR_INPROGRESS then (state, w)
               else case http_post_close env state w of (_, state, w) \<Rightarrow> (state, w))
         else (state, w))"

definition http_post_dns_found ::
  "env \<Rightarrow> nat option \<Rightarrow> HTTP_POST_STATE_T \<Rightarrow> world \<Rightarrow> HTTP_POST_STATE_T \<times> world" where
  "http_post_dns_found env ipaddr state w =
    (case ipaddr of
       Some ip \<Rightarrow> http_post_connect_to_server_ip env ip state w
     | None \<Rightarrow> (case http_post_close env state w of (_, state, w) \<Rightarrow> (state, w)))"

definition http_post_open ::
  "env \<Rightarrow> string \<Rightarrow> HTTP_POST_STATE_T \<Rightarrow> world \<Rightarrow> bool \<times> HTTP_POST_STATE_T \<times> world" where
  "http_post_open env hostname state w =
    (let w = call (Altcp_tls_new (tls_config w)) w;
         state = state\<lparr>pcb := tls_new_result env\<rparr>
     in case pcb state of
          None \<Rightarrow> (False, state, w)
        | Some h \<Rightarrow>
            let w = call (Altcp_arg h True) w;
                w = call (Altcp_poll h True (timeout state * 2)) w;
                w = call (Altcp_recv h True) w;
                w = call (Altcp_err h True) w;
                w = call (Ssl_set_hostname h hostname) w;
                w = call (Dns_gethostbyname hostname) w;
                err = dns_result env;
                (state, w) =
                  (if err = ERR_OK
                   then http_post_connect_to_server_ip env (server_ip env) state w
                   else if err \<noteq> ERR_INPROGRESS
                   then (case http_post_close env state w of (_, state, w) \<Rightarrow> (state, w))
                   else (state, w))
            in (err = ERR_OK \<or> err = ERR_INPROGRESS, state, w))"

subsection \<open>Callbacks from the event loop\<close>

text \<open>
  The callbacks lwIP can deliver to one uplink. The callbacks registered on the handle
  (connected, poll, error, receive) are delivered only while the state holds the handle:
  \<open>http_post_open\<close> registers them as it stores the handle, and \<open>http_post_close\<close>
  unregisters them as it clears it. The name resolution callback is registered with the
  resolver, not with the handle.
\<close>

datatype event =
    Dns_found "nat option"
  | Connected err_t
  | Poll
  | Err err_t
  | Recv "string option" err_t

fun deliver :: "env \<Rightarrow> event \<Rightarrow> HTTP_POST_STATE_T \<times> world \<Rightarrow> HTTP_POST_STATE_T \<times> world" where
  "deliver env (Dns_found ipaddr) (state, w) = http_post_dns_found env ipaddr state w"
| "deliver env (Connected err) (state, w) =
    (case pcb state of
       None \<Rightarrow> (state, w)
     | Some h \<Rightarrow> snd (http_post_connected env err state w))"
| "deliver env Poll (state, w) =
    (case pcb state of
       None \<Rightarrow> (state, w)
     | Some h \<Rightarrow> snd (http_post_poll env state w))"
| "deliver env (Err err) (state, w) =
    (case pcb state of
       None \<Rightarrow> (state, w)
     | Some h \<Rightarrow> http_post_err env err state w)"
| "deliver env (Recv p err) (state, w) =
    (case pcb state of
       None \<Rightarrow> (state, w)
     | Some h \<Rightarrow> snd (http_post_recv env h p err state w))"

fun deliver_all ::
  "env \<Rightarrow> event list \<Rightarrow> HTTP_POST_STATE_T \<times> world \<Rightarrow> HTTP_POST_STATE_T \<times> world" where
  "deliver_all env [] sw = sw"
| "deliver_all env (ev # evs) sw = deliver_all env evs (deliver env ev sw)"


text \<open>
  The callbacks that assign no error code other than 0 to the state: all but the poll
  callback, the error callback, and a fragment that begins with the 401 or 404 line.
\<close>

fun records_no_error :: "event \<Rightarrow> bool" where
  "records_no_error (Dns_found ipaddr) = True"
| "records_no_error (Connected err) = True"
| "records_no_error Poll = False"
| "records_no_error (Err err) = False"
| "records_no_error (Recv None err) = True"
| "records_no_error (Recv (Some payload) err) =
    (classify_status (response_buf payload) \<noteq> AuthFailure
     \<and> classify_status (response_buf payload) \<noteq> NotFound)"

subsection \<open>Composing the request\<close>

text \<open>
  \<open>snprintf (buf, size, ...)\<close> stores at most \<open>size - 1\<close> characters of the formatted text
  and returns the length of the whole text. The \<open>%d\<close> conversion of a length is its
  decimal numeral. The \<open>%.2f\<close> conversion of the floating-point value is not computed
  here: its text, \<open>value_text\<close>, is an argument. The macros \<open>ADAFRUIT_IO_USERNAME\<close> and
  \<open>ADAFRUIT_IO_KEY\<close> are set by the build, so they are arguments too.
\<close>

record config =
  ADAFRUIT_IO_USERNAME :: string
  ADAFRUIT_IO_KEY :: string

definition snprintf :: "nat \<Rightarrow> string \<Rightarrow> string \<times> nat" where
  "snprintf n txt = (take (n - 1) txt, length txt)"

definition digit_char :: "nat \<Rightarrow> char" where
  "digit_char d = char_of (48 + d)"

fun decimal :: "nat \<Rightarrow> string" where
  "decimal n = (if n < 10 then [digit_char n] else decimal (n div 10) @ [digit_char (n mod 10)])"

definition crlf :: string where
  "crlf = [CHR 0x0D, CHR 0x0A]"

definition json_text :: "string \<Rightarrow> string" where
  "json_text value_text = ''{'' @ [CHR 0x22] @ ''value'' @ [CHR 0x22] @ '':'' @ [CHR 0x22]
                            @ value_text @ [CHR 0x22] @ ''}''"

definition request_text :: "config \<Rightarrow> string \<Rightarrow> nat \<Rightarrow> string \<Rightarrow> string" where
  "request_text cfg feed_key json_len json_body =
     ''POST /api/v2/'' @ ADAFRUIT_IO_USERNAME cfg @ ''/feeds/'' @ feed_key
       @ ''/data HTTP/1.1'' @ crlf
     @ ''Host: io.adafruit.com'' @ crlf
     @ ''X-AIO-Key: '' @ ADAFRUIT_IO_KEY cfg @ crlf
     @ ''Content-Type: application/json'' @ crlf
     @ ''Content-Length: '' @ decimal json_len @ crlf
     @ ''Connection: close'' @ crlf
     @ crlf
     @ json_body"

text \<open>The \<open>req_len\<close> of \<open>send_to_adafruit_io\<close>: the value the second \<open>snprintf\<close> returns.\<close>

definition request_length :: "config \<Rightarrow> string \<Rightarrow> string \<Rightarrow> nat" where
  "request_length cfg feed_key value_text =
    (case snprintf 128 (json_text value_text) of
       (json_body, json_len) \<Rightarrow> snd (snprintf 512 (request_text cfg feed_key json_len json_body)))"

subsection \<open>One uplink\<close>

text \<open>
  The wait loop of \<open>send_to_adafruit_io\<close>. Its argument lists, for each iteration that
  finds the deadline not yet reached, the callbacks delivered while that iteration
  polls or sleeps; the deadline of 30000 ms is reached at the iteration after the last
  one listed. The loop always ends: by the completion flag, or by the deadline.
\<close>

fun wait_loop ::
  "env \<Rightarrow> event list list \<Rightarrow> HTTP_POST_STATE_T \<times> world \<Rightarrow> HTTP_POST_STATE_T \<times> world" where
  "wait_loop env [] (state, w) =
    (if complete state then (state, w)
     else (state\<lparr>error := PICO_ERROR_TIMEOUT, complete := True\<rparr>, w))"
| "wait_loop env (evs # rest) (state, w) =
    (if complete state then (state, w)
     else wait_loop env rest (deliver_all env evs (state, w)))"

text \<open>The state \<open>calloc\<close> returns: every field zero.\<close>

definition http_post_init :: HTTP_POST_STATE_T where
  "http_post_init =
    \<lparr>pcb = None, complete = False, error = 0, http_request = [], timeout = 0\<rparr>"

text \<open>
  The result of \<open>send_to_adafruit_io\<close>: the value returned, the connection state as it
  was when it was freed (\<open>None\<close> when none was allocated), and the world afterwards.
\<close>

record send_result =
  success :: bool
  freed_state :: "HTTP_POST_STATE_T option"
  world_after :: world

definition send_to_adafruit_io ::
  "config \<Rightarrow> env \<Rightarrow> event list list \<Rightarrow> string \<Rightarrow> string \<Rightarrow> world \<Rightarrow> send_result" where
  "send_to_adafruit_io cfg env script feed_key value_text w =
    (case snprintf 128 (json_text value_text) of
       (json_body, json_len) \<Rightarrow>
         let w = (if tls_config w = None
                  then (case create_config_result env of
                          None \<Rightarrow> w
                        | Some c \<Rightarrow> w\<lparr>tls_config := Some c,
                                       tls_allocated := insert c (tls_allocated w)\<rparr>)
                  else w)
         in if tls_config w = None
            then \<lparr>success = False, freed_state = None, world_after = w\<rparr>
            else if \<not> calloc_result env
            then \<lparr>success = False, freed_state = None, world_after = w\<rparr>
            else
              case snprintf 512 (request_text cfg feed_key json_len json_body) of
                (request, req_len) \<Rightarrow>
                  let state = http_post_init\<lparr>http_request := request\<rparr>
                  in if req_len \<ge> 512
                     then \<lparr>success = False, freed_state = Some state, world_after = w\<rparr>
                     else
                       let state = state\<lparr>timeout := 15\<rparr>
                       in case http_post_open env ''io.adafruit.com'' state w of
                            (opened, state, w) \<Rightarrow>
                              if \<not> opened
                              then \<lparr>success = False, freed_state = Some state, world_after = w\<rparr>
                              else
                                case wait_loop env script (state, w) of
                                  (state, w) \<Rightarrow>
                                    \<lparr>success = (error state = 0),
                                     freed_state = Some state,
                                     world_after = w\<rparr>)"


subsection \<open>The shared TLS configuration as seen by an uplink\<close>

definition tls_part :: "world \<Rightarrow> nat option \<times> nat set" where
  "tls_part w = (tls_config w, tls_allocated w)"

section \<open>Concrete inputs\<close>

text \<open>The calibration set and raw values of the example in the BMP280 data sheet.\<close>

definition datasheet_params :: bmp280_calib_param where
  "datasheet_params =
    \<lparr>dig_t1 = 27504, dig_t2 = 26435, dig_t3 = - 1000,
     dig_p1 = 36477, dig_p2 = - 10685, dig_p3 = 3024, dig_p4 = 2855, dig_p5 = 140,
     dig_p6 = - 7, dig_p7 = 15500, dig_p8 = - 14600, dig_p9 = 6000\<rparr>"

text \<open>The calibration set of a sensor that was never read: every coefficient zero.\<close>

definition zero_params :: bmp280_calib_param where
  "zero_params =
    \<lparr>dig_t1 = 0, dig_t2 = 0, dig_t3 = 0,
     dig_p1 = 0, dig_p2 = 0, dig_p3 = 0, dig_p4 = 0, dig_p5 = 0,
     dig_p6 = 0, dig_p7 = 0, dig_p8 = 0, dig_p9 = 0\<rparr>"

text \<open>The defaults of the two macros in the source.\<close>

definition example_cfg :: config where
  "example_cfg = \<lparr>ADAFRUIT_IO_USERNAME = ''your_username'', ADAFRUIT_IO_KEY = ''your_key''\<rparr>"

text \<open>
  An environment in which every external call succeeds: the resolver answers later
  (\<open>ERR_INPROGRESS\<close>), the connect is accepted, the write and the close succeed.
\<close>

definition ok_env :: env where
  "ok_env =
    \<lparr>create_config_result = Some 1, calloc_result = True, tls_new_result = Some 7,
     dns_result = ERR_INPROGRESS, server_ip = 42, connect_result = ERR_OK,
     write_result = ERR_OK, close_result = ERR_OK\<rparr>"

text \<open>The same with the address in the resolver's cache: \<open>dns_gethostbyname\<close> answers at once.\<close>

definition cached_env :: env where
  "cached_env = ok_env\<lparr>dns_result := ERR_OK\<rparr>"

text \<open>The world as \<open>main\<close> leaves it before the first uplink: the configuration created.\<close>

definition world0 :: world where
  "world0 = \<lparr>tls_config = Some 1, tls_allocated = {1}, calls = []\<rparr>"

declare decimal.simps [simp del]

section \<open>Compensation: the properties\<close>

lemma udiv32_Some: "b \<noteq> 0 \<Longrightarrow> udiv32 a b = Some (a div b)"
  by (simp add: udiv32_def)

lemma pressure_var1_zero_params: "pressure_var1 0 zero_params = 0"
  by (simp add: pressure_var1_def pressure_var1_init_def bmp280_convert_def zero_params_def)

text \<open>
  Claim C4. When the divisor \<open>var1\<close> of the pressure polynomial is zero,
  \<open>bmp280_convert_pressure\<close> returns 0; and for every raw pressure, raw temperature and
  calibration set it returns a value: no division it performs has a zero divisor.
\<close>

theorem bmp280_convert_pressure_total:
  "(pressure_var1 temp params = 0 \<longrightarrow>
      bmp280_convert_pressure pressure temp params = Some 0)
   \<and> (\<exists>r. bmp280_convert_pressure pressure temp params = Some r)"
proof (cases "pressure_var1 temp params = 0")
  case True
  then show ?thesis by (simp add: bmp280_convert_pressure_def)
next
  case False
  then show ?thesis
    by (simp add: bmp280_convert_pressure_def Let_def udiv32_Some)
qed

theorem bmp280_convert_pressure_total_witness:
  "pressure_var1 0 zero_params = 0
   \<and> bmp280_convert_pressure 415148 0 zero_params = Some 0"
  using bmp280_convert_pressure_total [of 0 zero_params 415148] pressure_var1_zero_params
  by simp

lemma sint_scaled:
  fixes t :: "32 word"
  assumes "- (2 ^ 31) \<le> sint t * 5 + 128" "sint t * 5 + 128 < 2 ^ 31"
  shows "sint (t * 5 + 128) = sint t * 5 + 128"
proof -
  have "t * 5 + 128 = word_of_int (sint t * 5 + 128)"
    by simp
  then have "sint (t * 5 + 128) = signed_take_bit 31 (sint t * 5 + 128)"
    by (simp only: sint_sbintrunc') simp
  also have "\<dots> = sint t * 5 + 128"
    using assms by (simp add: signed_take_bit_int_eq_self)
  finally show ?thesis .
qed

lemma t_fine_datasheet: "sint (bmp280_convert 519888 datasheet_params) = 128422"
  by (simp add: bmp280_convert_def datasheet_params_def)

text \<open>
  Claim C7. The temperature \<open>bmp280_convert_temp\<close> returns is
  \<open>(bmp280_convert temp params * 5 + 128) >> 8\<close>: as a signed number, the 32-bit value of
  \<open>t_fine * 5 + 128\<close> divided by 256 and rounded down; and where \<open>t_fine * 5 + 128\<close> fits
  32 bits, that is the integer \<open>(t_fine * 5 + 128) div 256\<close>.
\<close>

theorem bmp280_convert_temp_scaling:
  "bmp280_convert_temp temp params = signed_drop_bit 8 (bmp280_convert temp params * 5 + 128)
   \<and> sint (bmp280_convert_temp temp params)
       = sint (bmp280_convert temp params * 5 + 128) div 256
   \<and> (- (2 ^ 31) \<le> sint (bmp280_convert temp params) * 5 + 128
        \<and> sint (bmp280_convert temp params) * 5 + 128 < 2 ^ 31
       \<longrightarrow> sint (bmp280_convert_temp temp params)
             = (sint (bmp280_convert temp params) * 5 + 128) div 256)"
proof -
  let ?tf = "bmp280_convert temp params"
  have a: "bmp280_convert_temp temp params = signed_drop_bit 8 (?tf * 5 + 128)"
    by (simp add: bmp280_convert_temp_def)
  have b: "sint (bmp280_convert_temp temp params) = sint (?tf * 5 + 128) div 256"
    by (simp add: a sint_signed_drop_bit_eq drop_bit_eq_div)
  show ?thesis using a b sint_scaled [of ?tf] by simp
qed

theorem bmp280_convert_temp_scaling_witness:
  "sint (bmp280_convert 519888 datasheet_params) = 128422
   \<and> sint (bmp280_convert_temp 519888 datasheet_params) = 2508"
  using bmp280_convert_temp_scaling [of 519888 datasheet_params, THEN conjunct2, THEN conjunct2]
    t_fine_datasheet
  by simp

text \<open>
  Claim C8, as stated, fails: two calibration sets that agree on \<open>dig_t1\<close> and \<open>dig_t2\<close>
  and differ in \<open>dig_t3\<close> give different intermediates.
\<close>

theorem bmp280_convert_depends_on_dig_t3:
  "dig_t1 datasheet_params = dig_t1 (datasheet_params\<lparr>dig_t3 := 0\<rparr>)
   \<and> dig_t2 datasheet_params = dig_t2 (datasheet_params\<lparr>dig_t3 := 0\<rparr>)
   \<and> bmp280_convert 519888 datasheet_params
       \<noteq> bmp280_convert 519888 (datasheet_params\<lparr>dig_t3 := 0\<rparr>)"
  by (simp add: bmp280_convert_def datasheet_params_def)

text \<open>
  Claim C8, amended. The intermediate is computed from the raw temperature and three
  coefficients: two calibration sets that agree on \<open>dig_t1\<close>, \<open>dig_t2\<close> and \<open>dig_t3\<close> give
  the same value, whatever the pressure coefficients are.
\<close>

theorem bmp280_convert_three_coefficients:
  "dig_t1 p = dig_t1 q \<Longrightarrow> dig_t2 p = dig_t2 q \<Longrightarrow> dig_t3 p = dig_t3 q
   \<Longrightarrow> bmp280_convert temp p = bmp280_convert temp q"
  by (simp add: bmp280_convert_def)

theorem bmp280_convert_three_coefficients_witness:
  "bmp280_convert 519888 datasheet_params
     = bmp280_convert 519888 (datasheet_params\<lparr>dig_p1 := 0, dig_p9 := 7\<rparr>)"
  using bmp280_convert_three_coefficients
    [of datasheet_params "datasheet_params\<lparr>dig_p1 := 0, dig_p9 := 7\<rparr>" 519888]
  by simp


section \<open>The uplink: auxiliary facts\<close>

lemma err_consts [simp]:
  "ERR_INPROGRESS \<noteq> ERR_OK" "ERR_ABRT \<noteq> ERR_OK" "ERR_VAL \<noteq> ERR_OK"
  "ERR_VAL \<noteq> ERR_INPROGRESS"
  "PICO_ERROR_GENERIC \<noteq> 0" "PICO_ERROR_TIMEOUT \<noteq> 0"
  by (simp_all add: ERR_INPROGRESS_def ERR_OK_def ERR_ABRT_def ERR_VAL_def
      PICO_ERROR_GENERIC_def PICO_ERROR_TIMEOUT_def)

lemma tls_part_call [simp]: "tls_part (call c w) = tls_part w"
  by (simp add: tls_part_def call_def)

lemma calls_call [simp]: "calls (call c w) = calls w @ [c]"
  by (simp add: call_def)

lemma record_status_fields [simp]:
  "pcb (record_status c state) = pcb state"
  "complete (record_status c state) = complete state"
  "http_request (record_status c state) = http_request state"
  "timeout (record_status c state) = timeout state"
  by (cases c; simp)+

subsection \<open>Closing\<close>

lemma http_post_close_state:
  "fst (snd (http_post_close env state w)) = state\<lparr>complete := True, pcb := None\<rparr>"
  by (cases state) (simp add: http_post_close_def Let_def split: option.splits)

lemma http_post_close_hygiene:
  "complete (fst (snd (http_post_close env state w)))
   \<and> pcb (fst (snd (http_post_close env state w))) = None
   \<and> error (fst (snd (http_post_close env state w))) = error state"
  by (simp add: http_post_close_state)

lemma http_post_close_calls:
  "set (calls w) \<subseteq> set (calls (snd (snd (http_post_close env state w))))"
  by (auto simp: http_post_close_def Let_def split: option.splits)

subsection \<open>No callback touches the TLS configuration\<close>

lemma http_post_close_tls [simp]:
  "tls_part (snd (snd (http_post_close env state w))) = tls_part w"
  by (simp add: http_post_close_def Let_def split: option.splits)

lemma altcp_write_tls [simp]: "tls_part (snd (altcp_write env p d w)) = tls_part w"
  by (simp add: altcp_write_def split: option.splits)

lemma altcp_connect_tls [simp]: "tls_part (snd (altcp_connect env p a b w)) = tls_part w"
  by (simp add: altcp_connect_def split: option.splits)

lemma http_post_connected_tls [simp]:
  "tls_part (snd (snd (http_post_connected env err state w))) = tls_part w"
proof -
  obtain e w1 where a: "altcp_write env (pcb state) (http_request state) w = (e, w1)"
    by (cases "altcp_write env (pcb state) (http_request state) w")
  then have "tls_part w1 = tls_part w"
    using altcp_write_tls [of env "pcb state" "http_request state" w] by simp
  then show ?thesis
    by (simp add: http_post_connected_def a)
qed

lemma http_post_poll_tls [simp]:
  "tls_part (snd (snd (http_post_poll env state w))) = tls_part w"
  by (simp add: http_post_poll_def)

lemma http_post_err_tls [simp]:
  "tls_part (snd (http_post_err env err state w)) = tls_part w"
proof -
  obtain e s1 w1 where a: "http_post_close env state w = (e, s1, w1)"
    by (cases "http_post_close env state w")
  then have "tls_part w1 = tls_part w"
    using http_post_close_tls [of env state w] by simp
  then show ?thesis by (simp add: http_post_err_def a)
qed

lemma http_post_recv_tls [simp]:
  "tls_part (snd (snd (http_post_recv env h p err state w))) = tls_part w"
  by (simp add: http_post_recv_def split: option.splits)

lemma http_post_connect_to_server_ip_tls [simp]:
  "tls_part (snd (http_post_connect_to_server_ip env ip state w)) = tls_part w"
proof -
  obtain e w1 where a: "altcp_connect env (pcb state) ip 443 w = (e, w1)"
    by (cases "altcp_connect env (pcb state) ip 443 w")
  then have "tls_part w1 = tls_part w"
    using altcp_connect_tls [of env "pcb state" ip 443 w] by simp
  then show ?thesis
    by (simp add: http_post_connect_to_server_ip_def a case_prod_beta)
qed

lemma http_post_dns_found_tls [simp]:
  "tls_part (snd (http_post_dns_found env ip state w)) = tls_part w"
  by (simp add: http_post_dns_found_def case_prod_beta split: option.splits)

lemma http_post_open_tls [simp]:
  "tls_part (snd (snd (http_post_open env host state w))) = tls_part w"
  by (simp add: http_post_open_def Let_def case_prod_beta split: option.splits)

lemma deliver_tls [simp]: "tls_part (snd (deliver env ev (state, w))) = tls_part w"
  by (cases ev) (simp_all split: option.splits)

lemma deliver_all_tls: "tls_part (snd (deliver_all env evs sw)) = tls_part (snd sw)"
proof (induction evs arbitrary: sw)
  case Nil
  then show ?case by simp
next
  case (Cons ev evs)
  obtain s w where sw: "sw = (s, w)" by (cases sw)
  show ?case using Cons.IH [of "deliver env ev sw"] by (simp add: sw)
qed

lemma wait_loop_tls: "tls_part (snd (wait_loop env script sw)) = tls_part (snd sw)"
proof (induction script arbitrary: sw)
  case Nil
  obtain s w where sw: "sw = (s, w)" by (cases sw)
  show ?case by (simp add: sw)
next
  case (Cons evs rest)
  obtain s w where sw: "sw = (s, w)" by (cases sw)
  show ?case
    using Cons.IH [of "deliver_all env evs sw"] deliver_all_tls [of env evs sw]
    by (simp add: sw)
qed

lemma send_tls_part:
  "tls_part (world_after (send_to_adafruit_io cfg env script feed_key value_text w)) =
   tls_part (if tls_config w = None
             then (case create_config_result env of
                     None \<Rightarrow> w
                   | Some c \<Rightarrow> w\<lparr>tls_config := Some c,
                                  tls_allocated := insert c (tls_allocated w)\<rparr>)
             else w)"
  (is "_ = tls_part ?w1")
proof -
  define w1 where "w1 = ?w1"
  obtain jb jl where j: "snprintf 128 (json_text value_text) = (jb, jl)"
    by (cases "snprintf 128 (json_text value_text)")
  obtain rq rl where q: "snprintf 512 (request_text cfg feed_key jl jb) = (rq, rl)"
    by (cases "snprintf 512 (request_text cfg feed_key jl jb)")
  let ?st = "http_post_init\<lparr>http_request := rq, timeout := 15\<rparr>"
  obtain ok s2 w2 where o: "http_post_open env ''io.adafruit.com'' ?st w1 = (ok, s2, w2)"
    by (cases "http_post_open env ''io.adafruit.com'' ?st w1")
  have w2: "tls_part w2 = tls_part w1"
    using http_post_open_tls [of env "''io.adafruit.com''" ?st w1] by (simp only: o snd_conv)
  obtain s3 w3 where l: "wait_loop env script (s2, w2) = (s3, w3)"
    by (cases "wait_loop env script (s2, w2)")
  have w3: "tls_part w3 = tls_part w2"
    using wait_loop_tls [of env script "(s2, w2)"] by (simp only: l snd_conv)
  show ?thesis
    unfolding send_to_adafruit_io_def Let_def j prod.case q w1_def [symmetric]
    using o l w2 w3 by simp
qed

subsection \<open>The status line\<close>

lemma strncmp_literal:
  "length lit = n \<Longrightarrow> NUL \<notin> set lit \<Longrightarrow> (strncmp s lit n = 0) = (take n s = lit)"
proof (induction n arbitrary: s lit)
  case 0
  then show ?case by simp
next
  case (Suc n)
  then obtain c cs where lit: "lit = c # cs" by (cases lit) auto
  with Suc.prems have c: "c \<noteq> NUL" and cs: "length cs = n" "NUL \<notin> set cs" by auto
  show ?case
  proof (cases s)
    case Nil
    then show ?thesis using c lit by (simp add: char_at_head_def)
  next
    case (Cons d ds)
    then show ?thesis using c lit Suc.IH [OF cs, of ds]
      by (auto simp: char_at_head_def Let_def)
  qed
qed

lemma take_response_buf:
  assumes "length lit = 12" "NUL \<notin> set lit"
  shows "(take 12 (response_buf payload) = lit) = (take 12 payload = lit)"
proof (cases "12 \<le> length payload")
  case True
  then show ?thesis by (simp add: response_buf_def Let_def min_def)
next
  case False
  then have short: "length payload < 12" by simp
  then have "take 12 (response_buf payload) = payload @ [NUL]"
    by (simp add: response_buf_def Let_def)
  then have "take 12 (response_buf payload) \<noteq> lit"
    using assms(2) by auto
  moreover have "take 12 payload \<noteq> lit"
    using short assms(1) by auto
  ultimately show ?thesis by simp
qed

lemma strncmp_response_buf:
  assumes "length lit = 12" "NUL \<notin> set lit"
  shows "(strncmp (response_buf payload) lit 12 = 0) = (take 12 payload = lit)"
  using strncmp_literal [OF assms, of "response_buf payload"] take_response_buf [OF assms]
  by simp

lemma classify_status_by_prefix:
  "classify_status (response_buf payload) =
     (if take 12 payload = ''HTTP/1.1 200'' \<or> take 12 payload = ''HTTP/1.1 201'' then Success
      else if take 12 payload = ''HTTP/1.1 401'' then AuthFailure
      else if take 12 payload = ''HTTP/1.1 404'' then NotFound
      else UnexpectedStatus)"
  by (simp add: classify_status_def strncmp_response_buf NUL_def)


subsection \<open>Entering and leaving the wait loop\<close>

lemma decimal_17: "decimal 17 = ''17''"
  by code_simp

lemma example_request_length: "request_length example_cfg ''bmp280-temp'' ''25.08'' = 194"
  by code_simp

lemma request_length_ge_feed_key:
  "length feed_key \<le> request_length cfg feed_key value_text"
  by (simp add: request_length_def snprintf_def request_text_def)

lemma http_post_open_in_progress:
  assumes "tls_new_result env = Some h" "dns_result env = ERR_INPROGRESS"
  shows "fst (http_post_open env host state w) = True"
    and "fst (snd (http_post_open env host state w)) = state\<lparr>pcb := Some h\<rparr>"
  using assms by (simp_all add: http_post_open_def Let_def)

text \<open>
  When the request fits, a configuration exists or can be created, the state and the
  handle are allocated and the resolver answers later, \<open>send_to_adafruit_io\<close> reaches
  its wait loop with the handle stored, the completion flag clear and no error recorded.
\<close>

lemma send_enters_wait_loop:
  assumes fits: "request_length cfg feed_key value_text < 512"
    and config: "tls_config w \<noteq> None \<or> create_config_result env \<noteq> None"
    and alloc: "calloc_result env"
    and new: "tls_new_result env = Some h"
    and dns: "dns_result env = ERR_INPROGRESS"
  shows "\<exists>state w1. pcb state = Some h \<and> \<not> complete state \<and> error state = 0
           \<and> (\<forall>script. send_to_adafruit_io cfg env script feed_key value_text w =
                 \<lparr>success = (error (fst (wait_loop env script (state, w1))) = 0),
                  freed_state = Some (fst (wait_loop env script (state, w1))),
                  world_after = snd (wait_loop env script (state, w1))\<rparr>)"
proof -
  define w0 where "w0 = (if tls_config w = None
             then (case create_config_result env of
                     None \<Rightarrow> w
                   | Some c \<Rightarrow> w\<lparr>tls_config := Some c,
                                  tls_allocated := insert c (tls_allocated w)\<rparr>)
             else w)"
  have w0: "tls_config w0 \<noteq> None"
    using config by (auto simp: w0_def)
  obtain jb jl where j: "snprintf 128 (json_text value_text) = (jb, jl)"
    by (cases "snprintf 128 (json_text value_text)")
  obtain rq rl where q: "snprintf 512 (request_text cfg feed_key jl jb) = (rq, rl)"
    by (cases "snprintf 512 (request_text cfg feed_key jl jb)")
  from fits have rl: "\<not> 512 \<le> rl"
    by (simp add: request_length_def j q)
  let ?st = "http_post_init\<lparr>http_request := rq, timeout := 15\<rparr>"
  obtain ok s2 w2 where o: "http_post_open env ''io.adafruit.com'' ?st w0 = (ok, s2, w2)"
    by (cases "http_post_open env ''io.adafruit.com'' ?st w0")
  have ok: "ok" and s2: "s2 = ?st\<lparr>pcb := Some h\<rparr>"
    using http_post_open_in_progress [OF new dns, of "''io.adafruit.com''" ?st w0]
    by (simp_all add: o)
  have "\<forall>script. send_to_adafruit_io cfg env script feed_key value_text w =
                 \<lparr>success = (error (fst (wait_loop env script (s2, w2))) = 0),
                  freed_state = Some (fst (wait_loop env script (s2, w2))),
                  world_after = snd (wait_loop env script (s2, w2))\<rparr>"
    unfolding send_to_adafruit_io_def Let_def j prod.case q w0_def [symmetric]
    using w0 alloc rl o ok by (simp add: case_prod_beta)
  moreover have "pcb s2 = Some h" "\<not> complete s2" "error s2 = 0"
    by (simp_all add: s2 http_post_init_def)
  ultimately show ?thesis by blast
qed

text \<open>
  The exchange of one response: the address is found, the connection is established and
  the request written, one fragment arrives, the peer closes the stream.
\<close>

lemma wait_loop_response_then_eof:
  assumes h: "pcb state = Some h" and nc: "\<not> complete state"
    and conn: "connect_result env = ERR_OK \<or> connect_result env = ERR_INPROGRESS"
    and wr: "write_result env = ERR_OK"
    and ne: "payload \<noteq> []"
  shows "fst (wait_loop env
           [[Dns_found (Some ip)], [Connected ERR_OK], [Recv (Some payload) e1], [Recv None e2]]
           (state, w))
         = (record_status (classify_status (response_buf payload)) state)
             \<lparr>error := 0, complete := True, pcb := None\<rparr>"
  using assms
  by (auto simp: http_post_dns_found_def http_post_connect_to_server_ip_def altcp_connect_def
      http_post_connected_def altcp_write_def http_post_recv_def http_post_close_def Let_def)

lemma send_response_then_eof:
  assumes fits: "request_length cfg feed_key value_text < 512"
    and config: "tls_config w \<noteq> None \<or> create_config_result env \<noteq> None"
    and alloc: "calloc_result env"
    and new: "tls_new_result env = Some h"
    and dns: "dns_result env = ERR_INPROGRESS"
    and conn: "connect_result env = ERR_OK \<or> connect_result env = ERR_INPROGRESS"
    and wr: "write_result env = ERR_OK"
    and ne: "payload \<noteq> []"
  shows "success (send_to_adafruit_io cfg env
           [[Dns_found (Some ip)], [Connected ERR_OK], [Recv (Some payload) e1], [Recv None e2]]
           feed_key value_text w)"
    and "map_option error (freed_state (send_to_adafruit_io cfg env
           [[Dns_found (Some ip)], [Connected ERR_OK], [Recv (Some payload) e1], [Recv None e2]]
           feed_key value_text w)) = Some 0"
proof -
  let ?script =
    "[[Dns_found (Some ip)], [Connected ERR_OK], [Recv (Some payload) e1], [Recv None e2]]"
  obtain state w1 where st: "pcb state = Some h" "\<not> complete state"
    and run: "send_to_adafruit_io cfg env ?script feed_key value_text w =
                 \<lparr>success = (error (fst (wait_loop env ?script (state, w1))) = 0),
                  freed_state = Some (fst (wait_loop env ?script (state, w1))),
                  world_after = snd (wait_loop env ?script (state, w1))\<rparr>"
    using send_enters_wait_loop [OF fits config alloc new dns] by blast
  have "error (fst (wait_loop env ?script (state, w1))) = 0"
    by (simp only: wait_loop_response_then_eof [OF st conn wr ne]) simp
  then show "success (send_to_adafruit_io cfg env ?script feed_key value_text w)"
    and "map_option error (freed_state (send_to_adafruit_io cfg env ?script
           feed_key value_text w)) = Some 0"
    by (simp_all add: run)
qed

text \<open>
  The deadline of the wait loop: when no callback arrives before it, the loop sets the
  completion flag and the timeout error and leaves the handle as it is.
\<close>

lemma send_deadline:
  assumes fits: "request_length cfg feed_key value_text < 512"
    and config: "tls_config w \<noteq> None \<or> create_config_result env \<noteq> None"
    and alloc: "calloc_result env"
    and new: "tls_new_result env = Some h"
    and dns: "dns_result env = ERR_INPROGRESS"
  shows "map_option complete (freed_state (send_to_adafruit_io cfg env [] feed_key value_text w))
           = Some True"
    and "map_option pcb (freed_state (send_to_adafruit_io cfg env [] feed_key value_text w))
           = Some (Some h)"
    and "map_option error (freed_state (send_to_adafruit_io cfg env [] feed_key value_text w))
           = Some PICO_ERROR_TIMEOUT"
proof -
  obtain state w1 where st: "pcb state = Some h" "\<not> complete state"
    and run: "send_to_adafruit_io cfg env [] feed_key value_text w =
                 \<lparr>success = (error (fst (wait_loop env [] (state, w1))) = 0),
                  freed_state = Some (fst (wait_loop env [] (state, w1))),
                  world_after = snd (wait_loop env [] (state, w1))\<rparr>"
    using send_enters_wait_loop [OF fits config alloc new dns] by blast
  show "map_option complete (freed_state (send_to_adafruit_io cfg env [] feed_key value_text w))
           = Some True"
    and "map_option pcb (freed_state (send_to_adafruit_io cfg env [] feed_key value_text w))
           = Some (Some h)"
    and "map_option error (freed_state (send_to_adafruit_io cfg env [] feed_key value_text w))
           = Some PICO_ERROR_TIMEOUT"
    using st by (simp_all add: run)
qed

lemma example_hyps:
  "request_length example_cfg ''bmp280-temp'' ''25.08'' < 512"
  "tls_config world0 \<noteq> None \<or> create_config_result ok_env \<noteq> None"
  "calloc_result ok_env"
  "tls_new_result ok_env = Some 7"
  "dns_result ok_env = ERR_INPROGRESS"
  "connect_result ok_env = ERR_OK \<or> connect_result ok_env = ERR_INPROGRESS"
  "write_result ok_env = ERR_OK"
  by (simp_all add: example_request_length world0_def ok_env_def)

text \<open>
  Callbacks that record no error leave the error code at 0; then only the deadline of
  the wait loop can set it.
\<close>

lemma deliver_records_no_error:
  assumes "records_no_error ev" "error state = 0"
  shows "error (fst (deliver env ev (state, w))) = 0"
proof (cases ev)
  case (Dns_found ip)
  then show ?thesis using assms
    by (auto simp: http_post_dns_found_def http_post_connect_to_server_ip_def case_prod_beta
        http_post_close_state split: option.splits prod.splits)
next
  case (Connected e)
  then show ?thesis using assms
    by (auto simp: http_post_connected_def case_prod_beta http_post_close_state
        split: option.splits)
next
  case Poll
  then show ?thesis using assms by simp
next
  case (Err e)
  then show ?thesis using assms by simp
next
  case (Recv p e)
  show ?thesis
  proof (cases p)
    case None
    then show ?thesis using Recv assms
      by (auto simp: http_post_recv_def http_post_close_state split: option.splits)
  next
    case (Some payload)
    then have "classify_status (response_buf payload) = Success
               \<or> classify_status (response_buf payload) = UnexpectedStatus"
      using Recv assms(1) by (cases "classify_status (response_buf payload)") simp_all
    then show ?thesis using Recv Some assms(2)
      by (auto simp: http_post_recv_def split: option.splits)
  qed
qed

lemma deliver_all_records_no_error:
  assumes "\<forall>ev\<in>set evs. records_no_error ev" "error (fst sw) = 0"
  shows "error (fst (deliver_all env evs sw)) = 0"
  using assms
proof (induction evs arbitrary: sw)
  case Nil
  then show ?case by simp
next
  case (Cons ev evs)
  obtain s w where sw: "sw = (s, w)" by (cases sw)
  have "error (fst (deliver env ev sw)) = 0"
    using Cons.prems deliver_records_no_error [of ev s env w] by (simp add: sw)
  then show ?case using Cons.IH [of "deliver env ev sw"] Cons.prems(1) by simp
qed

lemma wait_loop_records_no_error:
  assumes "\<forall>evs\<in>set script. \<forall>ev\<in>set evs. records_no_error ev" "error (fst sw) = 0"
  shows "error (fst (wait_loop env script sw)) = 0
         \<or> error (fst (wait_loop env script sw)) = PICO_ERROR_TIMEOUT"
  using assms
proof (induction script arbitrary: sw)
  case Nil
  obtain s w where sw: "sw = (s, w)" by (cases sw)
  show ?case using Nil.prems by (simp add: sw)
next
  case (Cons evs rest)
  obtain s w where sw: "sw = (s, w)" by (cases sw)
  have "error (fst (deliver_all env evs sw)) = 0"
    using Cons.prems deliver_all_records_no_error [of evs sw env] by simp
  then show ?case
    using Cons.IH [of "deliver_all env evs sw"] Cons.prems by (simp add: sw)
qed

text \<open>With no callback at all the wait loop ends at its deadline, the handle untouched.\<close>

lemma wait_loop_no_callbacks:
  "\<not> complete state \<Longrightarrow>
   wait_loop env (replicate n []) (state, w)
     = (state\<lparr>error := PICO_ERROR_TIMEOUT, complete := True\<rparr>, w)"
  by (induction n) simp_all

text \<open>
  Both ways the resolver can answer at once: later (\<open>ERR_INPROGRESS\<close>) or from its
  cache (\<open>ERR_OK\<close>, and the connect is started inside \<open>http_post_open\<close>). Either way
  \<open>http_post_open\<close> returns \<open>true\<close>, records no error, and leaves the handle stored
  unless it has already closed it and set the completion flag.
\<close>

lemma http_post_open_started:
  assumes "tls_new_result env = Some h"
    and "dns_result env = ERR_OK \<or> dns_result env = ERR_INPROGRESS"
  shows "fst (http_post_open env host state w) = True"
    and "error (fst (snd (http_post_open env host state w))) = error state"
    and "complete (fst (snd (http_post_open env host state w)))
         \<or> pcb (fst (snd (http_post_open env host state w))) \<noteq> None"
  using assms
  by (auto simp: http_post_open_def Let_def case_prod_beta http_post_connect_to_server_ip_def
      altcp_connect_def http_post_close_state)

lemma send_enters_wait_loop_started:
  assumes fits: "request_length cfg feed_key value_text < 512"
    and config: "tls_config w \<noteq> None \<or> create_config_result env \<noteq> None"
    and alloc: "calloc_result env"
    and new: "tls_new_result env = Some h"
    and dns: "dns_result env = ERR_OK \<or> dns_result env = ERR_INPROGRESS"
  shows "\<exists>state w1. error state = 0 \<and> (complete state \<or> pcb state \<noteq> None)
           \<and> (\<forall>script. send_to_adafruit_io cfg env script feed_key value_text w =
                 \<lparr>success = (error (fst (wait_loop env script (state, w1))) = 0),
                  freed_state = Some (fst (wait_loop env script (state, w1))),
                  world_after = snd (wait_loop env script (state, w1))\<rparr>)"
proof -
  define w0 where "w0 = (if tls_config w = None
             then (case create_config_result env of
                     None \<Rightarrow> w
                   | Some c \<Rightarrow> w\<lparr>tls_config := Some c,
                                  tls_allocated := insert c (tls_allocated w)\<rparr>)
             else w)"
  have w0: "tls_config w0 \<noteq> None"
    using config by (auto simp: w0_def)
  obtain jb jl where j: "snprintf 128 (json_text value_text) = (jb, jl)"
    by (cases "snprintf 128 (json_text value_text)")
  obtain rq rl where q: "snprintf 512 (request_text cfg feed_key jl jb) = (rq, rl)"
    by (cases "snprintf 512 (request_text cfg feed_key jl jb)")
  from fits have rl: "\<not> 512 \<le> rl"
    by (simp add: request_length_def j q)
  let ?st = "http_post_init\<lparr>http_request := rq, timeout := 15\<rparr>"
  obtain ok s2 w2 where o: "http_post_open env ''io.adafruit.com'' ?st w0 = (ok, s2, w2)"
    by (cases "http_post_open env ''io.adafruit.com'' ?st w0")
  have ok: "ok" and e: "error s2 = error ?st" and inv: "complete s2 \<or> pcb s2 \<noteq> None"
    using http_post_open_started [OF new dns, of "''io.adafruit.com''" ?st w0]
    by (simp_all only: o fst_conv snd_conv)
  have e2: "error s2 = 0"
    by (simp add: e http_post_init_def)
  have "\<forall>script. send_to_adafruit_io cfg env script feed_key value_text w =
                 \<lparr>success = (error (fst (wait_loop env script (s2, w2))) = 0),
                  freed_state = Some (fst (wait_loop env script (s2, w2))),
                  world_after = snd (wait_loop env script (s2, w2))\<rparr>"
    unfolding send_to_adafruit_io_def Let_def j prod.case q w0_def [symmetric]
    using w0 alloc rl o ok by (simp add: case_prod_beta)
  then show ?thesis using e2 inv by blast
qed

text \<open>A state that is not complete holds its handle: every callback keeps it so.\<close>

lemma deliver_live_or_complete:
  assumes "complete state \<or> pcb state \<noteq> None"
  shows "complete (fst (deliver env ev (state, w)))
         \<or> pcb (fst (deliver env ev (state, w))) \<noteq> None"
proof (cases ev)
  case (Dns_found ip)
  then show ?thesis using assms
    by (auto simp: http_post_dns_found_def http_post_connect_to_server_ip_def case_prod_beta
        http_post_close_state split: option.splits prod.splits)
next
  case (Connected e)
  then show ?thesis using assms
    by (auto simp: http_post_connected_def case_prod_beta http_post_close_state
        split: option.splits)
next
  case Poll
  then show ?thesis using assms
    by (auto simp: http_post_poll_def http_post_close_state split: option.splits)
next
  case (Err e)
  then show ?thesis using assms
    by (auto simp: http_post_err_def case_prod_beta http_post_close_state split: option.splits)
next
  case (Recv p e)
  then show ?thesis using assms
    by (auto simp: http_post_recv_def http_post_close_state split: option.splits)
qed

lemma deliver_all_live_or_complete:
  assumes "complete (fst sw) \<or> pcb (fst sw) \<noteq> None"
  shows "complete (fst (deliver_all env evs sw)) \<or> pcb (fst (deliver_all env evs sw)) \<noteq> None"
  using assms
proof (induction evs arbitrary: sw)
  case Nil
  then show ?case by simp
next
  case (Cons ev evs)
  obtain s w where sw: "sw = (s, w)" by (cases sw)
  have "complete (fst (deliver env ev sw)) \<or> pcb (fst (deliver env ev sw)) \<noteq> None"
    using Cons.prems deliver_live_or_complete [of s env ev w] by (simp add: sw)
  then show ?case using Cons.IH [of "deliver env ev sw"] by simp
qed

lemma deliver_all_append:
  "deliver_all env (evs @ evs') sw = deliver_all env evs' (deliver_all env evs sw)"
  by (induction evs arbitrary: sw) simp_all

text \<open>
  Callbacks that record no error, then the end of the stream: the wait loop ends with
  the completion flag set by a close and the error code 0.
\<close>

lemma wait_loop_then_eof:
  assumes "\<forall>evs\<in>set pre. \<forall>ev\<in>set evs. records_no_error ev"
    and "error (fst sw) = 0"
    and "complete (fst sw) \<or> pcb (fst sw) \<noteq> None"
  shows "error (fst (wait_loop env (pre @ [[Recv None e]]) sw)) = 0"
  using assms
proof (induction pre arbitrary: sw)
  case Nil
  obtain s w where sw: "sw = (s, w)" by (cases sw)
  show ?case
  proof (cases "complete s")
    case True
    then show ?thesis using Nil.prems by (simp add: sw)
  next
    case False
    then obtain y where y: "pcb s = Some y"
      using Nil.prems(3) by (auto simp: sw)
    obtain r s1 w1 where c: "http_post_close env (s\<lparr>error := 0\<rparr>) w = (r, s1, w1)"
      by (cases "http_post_close env (s\<lparr>error := 0\<rparr>) w")
    have s1: "s1 = s\<lparr>error := 0, complete := True, pcb := None\<rparr>"
      using http_post_close_state [of env "s\<lparr>error := 0\<rparr>" w] by (simp add: c)
    show ?thesis
      using False y by (simp add: sw http_post_recv_def c s1)
  qed
next
  case (Cons evs rest)
  obtain s w where sw: "sw = (s, w)" by (cases sw)
  have a: "error (fst (deliver_all env evs sw)) = 0"
    using Cons.prems deliver_all_records_no_error [of evs sw env] by simp
  have b: "complete (fst (deliver_all env evs sw)) \<or> pcb (fst (deliver_all env evs sw)) \<noteq> None"
    using Cons.prems(3) by (rule deliver_all_live_or_complete)
  have c: "\<forall>evs\<in>set rest. \<forall>ev\<in>set evs. records_no_error ev"
    using Cons.prems(1) by simp
  show ?case
    using Cons.IH [OF c a b] Cons.prems(2) by (simp add: sw)
qed

subsection \<open>The poll callback and the handle\<close>

text \<open>
  \<open>http_post_open\<close> registers \<open>http_post_poll\<close> on the handle with the interval
  \<open>timeout * 2\<close>. When lwIP delivers it, the callback records the timeout, closes the
  handle and sets the completion flag. When lwIP delivers it is lwIP's matter.
\<close>

lemma http_post_connect_to_server_ip_calls:
  "set (calls w) \<subseteq> set (calls (snd (http_post_connect_to_server_ip env ip state w)))"
proof -
  obtain e w1 where a: "altcp_connect env (pcb state) ip 443 w = (e, w1)"
    by (cases "altcp_connect env (pcb state) ip 443 w")
  then have "set (calls w) \<subseteq> set (calls w1)"
    by (auto simp: altcp_connect_def split: option.splits)
  then show ?thesis
    using http_post_close_calls [of w1 env state]
    by (auto simp: http_post_connect_to_server_ip_def a case_prod_beta)
qed

lemma http_post_open_registers_poll:
  assumes "tls_new_result env = Some h"
  shows "Altcp_poll h True (timeout state * 2)
           \<in> set (calls (snd (snd (http_post_open env host state w))))"
proof -
  let ?w = "call (Dns_gethostbyname host) (call (Ssl_set_hostname h host)
             (call (Altcp_err h True) (call (Altcp_recv h True)
               (call (Altcp_poll h True (timeout state * 2)) (call (Altcp_arg h True)
                 (call (Altcp_tls_new (tls_config w)) w))))))"
  let ?s = "state\<lparr>pcb := Some h\<rparr>"
  have in_w: "Altcp_poll h True (timeout state * 2) \<in> set (calls ?w)"
    by simp
  show ?thesis
    using in_w http_post_close_calls [of ?w env ?s]
      http_post_connect_to_server_ip_calls [of ?w env "server_ip env" ?s] assms
    by (auto simp: http_post_open_def Let_def case_prod_beta)
qed

lemma http_post_poll_effect:
  assumes "pcb state = Some h"
  shows "fst (snd (http_post_poll env state w))
           = state\<lparr>error := PICO_ERROR_TIMEOUT, complete := True, pcb := None\<rparr>"
    and "Altcp_close h \<in> set (calls (snd (snd (http_post_poll env state w))))"
  using assms by (simp_all add: http_post_poll_def http_post_close_def Let_def)

text \<open>Every callback keeps the handle null once the completion flag is set.\<close>

lemma deliver_handle_hygiene:
  assumes "complete state \<longrightarrow> pcb state = None"
  shows "complete (fst (deliver env ev (state, w)))
           \<longrightarrow> pcb (fst (deliver env ev (state, w))) = None"
proof (cases ev)
  case (Dns_found ip)
  then show ?thesis using assms
    by (auto simp: http_post_dns_found_def http_post_connect_to_server_ip_def case_prod_beta
        http_post_close_state split: option.splits prod.splits)
next
  case (Connected e)
  then show ?thesis using assms
    by (auto simp: http_post_connected_def case_prod_beta http_post_close_state
        split: option.splits)
next
  case Poll
  then show ?thesis using assms
    by (auto simp: http_post_poll_def http_post_close_state split: option.splits)
next
  case (Err e)
  then show ?thesis using assms
    by (auto simp: http_post_err_def case_prod_beta http_post_close_state split: option.splits)
next
  case (Recv p e)
  then show ?thesis using assms
    by (auto simp: http_post_recv_def http_post_close_state split: option.splits)
qed

section \<open>The uplink: the properties\<close>

text \<open>
  Claim C1 says that the end of the stream carries the outcome classified before to
  \<open>Done\<close>. The code does otherwise. A first fragment \<open>HTTP/1.1 401 Unauthorized\<close> records
  \<open>PICO_ERROR_GENERIC\<close>; the receive callback invoked next with the null delivery, on a
  state holding that error, assigns 0 to the error before it closes; and the whole uplink
  with this response returns \<open>true\<close>.
\<close>

theorem eof_overwrites_classified_outcome:
  "error (fst (snd (http_post_recv env h (Some ''HTTP/1.1 401 Unauthorized'') e1 state w)))
     = PICO_ERROR_GENERIC
   \<and> error (fst (snd (http_post_recv env h None e2
                         (state\<lparr>error := PICO_ERROR_GENERIC\<rparr>) w))) = 0
   \<and> complete (fst (snd (http_post_recv env h None e2
                            (state\<lparr>error := PICO_ERROR_GENERIC\<rparr>) w)))
   \<and> success (send_to_adafruit_io example_cfg ok_env
        [[Dns_found (Some 42)], [Connected ERR_OK],
         [Recv (Some ''HTTP/1.1 401 Unauthorized'') ERR_OK], [Recv None ERR_OK]]
        ''bmp280-temp'' ''25.08'' world0)"
proof -
  have a: "classify_status (response_buf ''HTTP/1.1 401 Unauthorized'') = AuthFailure"
    by (simp add: classify_status_by_prefix)
  have b: "error (fst (snd (http_post_recv env h (Some ''HTTP/1.1 401 Unauthorized'')
                              e1 state w))) = PICO_ERROR_GENERIC"
    by (simp add: http_post_recv_def a)
  have c: "fst (snd (http_post_recv env h None e2 (state\<lparr>error := PICO_ERROR_GENERIC\<rparr>) w))
        = state\<lparr>error := 0, complete := True, pcb := None\<rparr>"
    by (simp add: http_post_recv_def http_post_close_state)
  have d: "success (send_to_adafruit_io example_cfg ok_env
        [[Dns_found (Some 42)], [Connected ERR_OK],
         [Recv (Some ''HTTP/1.1 401 Unauthorized'') ERR_OK], [Recv None ERR_OK]]
        ''bmp280-temp'' ''25.08'' world0)"
    by (rule send_response_then_eof(1) [OF example_hyps]) simp
  show ?thesis using b c d by simp
qed

text \<open>
  Claim C2, as stated, fails: a status line with the 2xx code 204 is not classified as
  \<open>Success\<close>.
\<close>

theorem status_204_not_success:
  "classify_status (response_buf ''HTTP/1.1 204 No Content'') \<noteq> Success"
  by (simp add: classify_status_by_prefix)

text \<open>
  Claim C2, amended. The classifier looks at the first 12 bytes of the fragment: it maps
  \<open>HTTP/1.1 200\<close> and \<open>HTTP/1.1 201\<close> to \<open>Success\<close> (error 0), \<open>HTTP/1.1 401\<close> to
  \<open>AuthFailure\<close> and \<open>HTTP/1.1 404\<close> to \<open>NotFound\<close> (error \<open>PICO_ERROR_GENERIC\<close>), and
  every other beginning, the other 2xx codes among them, to \<open>UnexpectedStatus\<close> (error
  left as it was); and a non-empty fragment changes nothing of the state but the error.
\<close>

theorem classify_status_literal_prefixes:
  "classify_status (response_buf payload) =
     (if take 12 payload = ''HTTP/1.1 200'' \<or> take 12 payload = ''HTTP/1.1 201'' then Success
      else if take 12 payload = ''HTTP/1.1 401'' then AuthFailure
      else if take 12 payload = ''HTTP/1.1 404'' then NotFound
      else UnexpectedStatus)
   \<and> error (record_status (classify_status (response_buf payload)) state) =
     (if take 12 payload = ''HTTP/1.1 200'' \<or> take 12 payload = ''HTTP/1.1 201'' then 0
      else if take 12 payload = ''HTTP/1.1 401'' \<or> take 12 payload = ''HTTP/1.1 404''
      then PICO_ERROR_GENERIC
      else error state)
   \<and> http_post_recv env h (Some (c # cs)) e state w =
       (ERR_OK, record_status (classify_status (response_buf (c # cs))) state,
        call (Altcp_recved h (length (c # cs))) w)"
  by (simp add: classify_status_by_prefix http_post_recv_def)

theorem classify_status_literal_prefixes_witness:
  "classify_status (response_buf ''HTTP/1.1 201 Created'') = Success
   \<and> classify_status (response_buf ''HTTP/1.1 404 Not Found'') = NotFound
   \<and> classify_status (response_buf ''HTTP/1.0 200 OK'') = UnexpectedStatus"
  using classify_status_literal_prefixes [of "''HTTP/1.1 201 Created''"]
    classify_status_literal_prefixes [of "''HTTP/1.1 404 Not Found''"]
    classify_status_literal_prefixes [of "''HTTP/1.0 200 OK''"]
  by simp

text \<open>
  Claim C3 says that the handle is null whenever the completion flag is set, on every
  path. The wait loop of \<open>send_to_adafruit_io\<close> breaks it: when the deadline passes with
  no callback delivered, the state is freed with the flag set and the handle still
  stored, and no close of the handle was ever requested.
\<close>

theorem deadline_sets_complete_with_live_handle:
  "map_option complete
     (freed_state (send_to_adafruit_io example_cfg ok_env [] ''bmp280-temp'' ''25.08'' world0))
     = Some True
   \<and> map_option pcb
     (freed_state (send_to_adafruit_io example_cfg ok_env [] ''bmp280-temp'' ''25.08'' world0))
     = Some (Some 7)
   \<and> Altcp_close 7 \<notin> set (calls
     (world_after (send_to_adafruit_io example_cfg ok_env [] ''bmp280-temp'' ''25.08'' world0)))"
  by code_simp

text \<open>
  Claim C5. When the composed request would take 512 bytes or more,
  \<open>send_to_adafruit_io\<close> returns \<open>false\<close> and has made no call into lwIP: no handle is
  created, no name is resolved, nothing is connected or written.
\<close>

theorem oversize_request_no_io:
  assumes "512 \<le> request_length cfg feed_key value_text"
  shows "success (send_to_adafruit_io cfg env script feed_key value_text w) = False
         \<and> calls (world_after (send_to_adafruit_io cfg env script feed_key value_text w))
             = calls w"
proof -
  obtain jb jl where j: "snprintf 128 (json_text value_text) = (jb, jl)"
    by (cases "snprintf 128 (json_text value_text)")
  obtain rq rl where q: "snprintf 512 (request_text cfg feed_key jl jb) = (rq, rl)"
    by (cases "snprintf 512 (request_text cfg feed_key jl jb)")
  from assms have "512 \<le> rl"
    by (simp add: request_length_def j q)
  then show ?thesis
    unfolding send_to_adafruit_io_def Let_def j prod.case q
    by (simp split: option.splits)
qed

theorem oversize_request_no_io_witness:
  "512 \<le> request_length example_cfg (replicate 512 CHR ''a'') ''25.08''
   \<and> success (send_to_adafruit_io example_cfg ok_env [[Dns_found (Some 42)]]
                (replicate 512 CHR ''a'') ''25.08'' world0) = False
   \<and> calls (world_after (send_to_adafruit_io example_cfg ok_env [[Dns_found (Some 42)]]
                (replicate 512 CHR ''a'') ''25.08'' world0)) = []"
proof -
  have big: "512 \<le> request_length example_cfg (replicate 512 CHR ''a'') ''25.08''"
    using request_length_ge_feed_key [of "replicate 512 CHR ''a''" example_cfg "''25.08''"]
    by simp
  show ?thesis
    using big oversize_request_no_io [OF big, of ok_env "[[Dns_found (Some 42)]]" world0]
    by (simp add: world0_def)
qed

text \<open>
  Claim C9. Whatever the callbacks and whatever the result, \<open>send_to_adafruit_io\<close>
  leaves a TLS configuration that exists on entry where it is: the global still points
  to it, and no configuration allocated before the call is released by it. The program
  never releases a configuration, so none is released before a connection state is done.
\<close>

theorem send_preserves_tls_context:
  "tls_allocated w
     \<subseteq> tls_allocated (world_after (send_to_adafruit_io cfg env script feed_key value_text w))
   \<and> (\<forall>c. tls_config w = Some c \<longrightarrow>
          tls_config (world_after (send_to_adafruit_io cfg env script feed_key value_text w))
            = Some c)"
  using send_tls_part [of cfg env script feed_key value_text w]
  by (auto simp: tls_part_def split: if_splits option.splits)

theorem send_preserves_tls_context_witness:
  "tls_config (world_after (send_to_adafruit_io example_cfg ok_env
       [[Dns_found (Some 42)], [Poll]] ''bmp280-temp'' ''25.08'' world0)) = Some 1
   \<and> 1 \<in> tls_allocated (world_after (send_to_adafruit_io example_cfg ok_env
       [[Dns_found (Some 42)], [Poll]] ''bmp280-temp'' ''25.08'' world0))"
  using send_preserves_tls_context
    [of world0 example_cfg ok_env "[[Dns_found (Some 42)], [Poll]]" "''bmp280-temp''" "''25.08''"]
  by (auto simp: world0_def)

text \<open>
  Claim C10. Take an uplink that is started (the request fits, the configuration, the
  state and the handle exist, and the resolver answers at once from its cache or later
  through its callback) and a non-empty fragment whose beginning matches none of the
  four literals. The receive callback leaves the connection state, and so its error
  code, as it was for such a fragment; the fragment is among the callbacks that record
  no error; after any callbacks that record no error and then this fragment, a state
  that held error 0 still holds error 0; whatever callbacks arrive, when none of
  them records an error the uplink returns \<open>true\<close> unless the deadline of the wait loop
  recorded the timeout; and when they are followed by the end of the stream the uplink
  ends with error 0 and returns \<open>true\<close>.
\<close>

theorem unexpected_status_reported_as_success:
  assumes fits: "request_length cfg feed_key value_text < 512"
    and config: "tls_config w \<noteq> None \<or> create_config_result env \<noteq> None"
    and alloc: "calloc_result env"
    and new: "tls_new_result env = Some h"
    and dns: "dns_result env = ERR_OK \<or> dns_result env = ERR_INPROGRESS"
    and ne: "payload \<noteq> []"
    and unexpected: "classify_status (response_buf payload) = UnexpectedStatus"
  shows "http_post_recv env h (Some payload) e1 state w'
           = (ERR_OK, state, call (Altcp_recved h (length payload)) w')
         \<and> records_no_error (Recv (Some payload) e1)
         \<and> (\<forall>st w0 evs. error st = 0 \<and> (\<forall>ev\<in>set evs. records_no_error ev) \<longrightarrow>
               error (fst (deliver_all env (evs @ [Recv (Some payload) e1]) (st, w0))) = 0)
         \<and> (\<forall>script. (\<forall>evs\<in>set script. \<forall>ev\<in>set evs. records_no_error ev) \<longrightarrow>
               success (send_to_adafruit_io cfg env script feed_key value_text w)
               \<or> map_option error
                    (freed_state (send_to_adafruit_io cfg env script feed_key value_text w))
                  = Some PICO_ERROR_TIMEOUT)
         \<and> (\<forall>pre e2. (\<forall>evs\<in>set pre. \<forall>ev\<in>set evs. records_no_error ev) \<longrightarrow>
               success (send_to_adafruit_io cfg env (pre @ [[Recv None e2]])
                          feed_key value_text w)
               \<and> map_option error
                    (freed_state (send_to_adafruit_io cfg env (pre @ [[Recv None e2]])
                                    feed_key value_text w))
                  = Some 0)"
proof -
  have one: "http_post_recv env h (Some payload) e1 state w'
           = (ERR_OK, state, call (Altcp_recved h (length payload)) w')"
    using ne unexpected by (simp add: http_post_recv_def)
  have two: "records_no_error (Recv (Some payload) e1)"
    using unexpected by simp
  have three: "error (fst (deliver_all env (evs @ [Recv (Some payload) e1]) (st, w0))) = 0"
    if "error st = 0" "\<forall>ev\<in>set evs. records_no_error ev" for st w0 evs
  proof -
    have "\<forall>ev\<in>set (evs @ [Recv (Some payload) e1]). records_no_error ev"
      using that(2) two by simp
    then show ?thesis
      using deliver_all_records_no_error [of "evs @ [Recv (Some payload) e1]" "(st, w0)" env]
        that(1)
      by simp
  qed
  obtain st w1 where st: "error st = 0" "complete st \<or> pcb st \<noteq> None"
    and run: "\<And>script. send_to_adafruit_io cfg env script feed_key value_text w =
                 \<lparr>success = (error (fst (wait_loop env script (st, w1))) = 0),
                  freed_state = Some (fst (wait_loop env script (st, w1))),
                  world_after = snd (wait_loop env script (st, w1))\<rparr>"
    using send_enters_wait_loop_started [OF fits config alloc new dns] by blast
  have four: "success (send_to_adafruit_io cfg env script feed_key value_text w)
             \<or> map_option error
                  (freed_state (send_to_adafruit_io cfg env script feed_key value_text w))
                = Some PICO_ERROR_TIMEOUT"
    if "\<forall>evs\<in>set script. \<forall>ev\<in>set evs. records_no_error ev" for script
    using wait_loop_records_no_error [OF that, of "(st, w1)" env] st(1)
    by (simp add: run)
  have five: "success (send_to_adafruit_io cfg env (pre @ [[Recv None e2]])
                          feed_key value_text w)
               \<and> map_option error
                    (freed_state (send_to_adafruit_io cfg env (pre @ [[Recv None e2]])
                                    feed_key value_text w))
                  = Some 0"
    if "\<forall>evs\<in>set pre. \<forall>ev\<in>set evs. records_no_error ev" for pre e2
    using wait_loop_then_eof [OF that, of "(st, w1)" env e2] st
    by (simp add: run)
  show ?thesis
    using one two three four five by blast
qed

theorem unexpected_status_reported_as_success_witness:
  "classify_status (response_buf ''HTTP/1.1 500 Internal Server Error'') = UnexpectedStatus
   \<and> success (send_to_adafruit_io example_cfg ok_env
             [[Dns_found (Some 42)], [Connected ERR_OK],
              [Recv (Some ''HTTP/1.1 500 Internal Server Error'') ERR_OK], [Recv None ERR_OK]]
             ''bmp280-temp'' ''25.08'' world0)
   \<and> success (send_to_adafruit_io example_cfg cached_env
             [[Connected ERR_OK],
              [Recv (Some ''HTTP/1.1 500 Internal Server Error'') ERR_OK], [Recv None ERR_OK]]
             ''bmp280-temp'' ''25.08'' world0)"
proof -
  let ?p = "''HTTP/1.1 500 Internal Server Error''"
  have u: "classify_status (response_buf ?p) = UnexpectedStatus"
    by (simp add: classify_status_by_prefix)
  have ne: "?p \<noteq> []" by simp
  have fits: "request_length example_cfg ''bmp280-temp'' ''25.08'' < 512"
    by (simp add: example_request_length)
  have config: "tls_config world0 \<noteq> None \<or> create_config_result ok_env \<noteq> None"
    "tls_config world0 \<noteq> None \<or> create_config_result cached_env \<noteq> None"
    by (simp_all add: world0_def)
  have alloc: "calloc_result ok_env" "calloc_result cached_env"
    by (simp_all add: ok_env_def cached_env_def)
  have new: "tls_new_result ok_env = Some 7" "tls_new_result cached_env = Some 7"
    by (simp_all add: ok_env_def cached_env_def)
  have dns: "dns_result ok_env = ERR_OK \<or> dns_result ok_env = ERR_INPROGRESS"
    "dns_result cached_env = ERR_OK \<or> dns_result cached_env = ERR_INPROGRESS"
    by (simp_all add: ok_env_def cached_env_def)
  have r: "records_no_error (Recv (Some ?p) ERR_OK)"
    using u by simp
  have later: "\<forall>evs\<in>set [[Dns_found (Some 42)], [Connected ERR_OK], [Recv (Some ?p) ERR_OK]].
                 \<forall>ev\<in>set evs. records_no_error ev"
    using r by simp
  have cached: "\<forall>evs\<in>set [[Connected ERR_OK], [Recv (Some ?p) ERR_OK]].
                 \<forall>ev\<in>set evs. records_no_error ev"
    using r by simp
  have a: "success (send_to_adafruit_io example_cfg ok_env
             ([[Dns_found (Some 42)], [Connected ERR_OK], [Recv (Some ?p) ERR_OK]]
                @ [[Recv None ERR_OK]])
             ''bmp280-temp'' ''25.08'' world0)"
    using unexpected_status_reported_as_success
      [OF fits config(1) alloc(1) new(1) dns(1) ne u, of ERR_OK http_post_init world0] later
    by blast
  have b: "success (send_to_adafruit_io example_cfg cached_env
             ([[Connected ERR_OK], [Recv (Some ?p) ERR_OK]] @ [[Recv None ERR_OK]])
             ''bmp280-temp'' ''25.08'' world0)"
    using unexpected_status_reported_as_success
      [OF fits config(2) alloc(2) new(2) dns(2) ne u, of ERR_OK http_post_init world0] cached
    by blast
  show ?thesis using u a b by simp
qed

end
